theory Spec2Isabelle
  imports Complex_Main
begin

section \<open>Runtime values\<close>

text \<open>
  The repository consists of Zod (version 3) schema values and two type guards. A schema
  is run on an arbitrary JavaScript value, so the model starts with those values.

  A JavaScript number is an IEEE double: a finite value (every one of them is a rational),
  one of the two infinities, or NaN. Finite numbers are modelled as rationals, which
  contain every finite double, so a statement about all rationals covers all doubles.
\<close>

datatype jsnum = Fin rat | PosInf | NegInf | NaN

text \<open>
  Objects are association lists from keys to values, as an object literal or a parsed
  JSON text gives them; the first binding of a key is the one that counts. \<open>JFun\<close> is a
  function, and \<open>JOther\<close> stands for every value that is none of the others (a Date, a
  Map, a Set, a symbol, a bigint): Zod classifies each of them as a type of its own,
  which none of the schemas below accepts except \<open>z.any()\<close>.
  A string is the list of its characters, and the length of that list stands for
  JavaScript's \<open>length\<close> (they agree on ASCII strings).
\<close>

datatype json =
    JUndefined
  | JNull
  | JBool bool
  | JNum jsnum
  | JStr string
  | JArr "json list"
  | JObj "(string \<times> json) list"
  | JFun
  | JOther

text \<open>\<open>data[key]\<close>: the value of an absent key is \<open>undefined\<close>.\<close>

definition field :: "(string \<times> json) list \<Rightarrow> string \<Rightarrow> json" where
  "field kvs k = (case map_of kvs k of None \<Rightarrow> JUndefined | Some v \<Rightarrow> v)"

text \<open>
  Zod's \<open>getParsedType\<close> classifies an object as a promise, not as an object, when its
  \<open>then\<close> and its \<open>catch\<close> are both functions:
  \<open>data.then && typeof data.then === "function" && data.catch && typeof data.catch === "function"\<close>.
\<close>

definition isPromise :: "(string \<times> json) list \<Rightarrow> bool" where
  "isPromise kvs = (field kvs ''then'' = JFun \<and> field kvs ''catch'' = JFun)"

text \<open>\<open>key in data\<close>\<close>

definition has_key :: "(string \<times> json) list \<Rightarrow> string \<Rightarrow> bool" where
  "has_key kvs k = (k \<in> set (map fst kvs))"

section \<open>Zod schemas\<close>

text \<open>
  The checks that the builder methods of \<open>z.number()\<close> and \<open>z.string()\<close> append:
  \<open>.int()\<close>, \<open>.min(v)\<close>, \<open>.max(v)\<close>, \<open>.positive()\<close>, \<open>.nonnegative()\<close>, and
  \<open>.min(n)\<close>, \<open>.max(n)\<close> on the length of a string.
\<close>

datatype numcheck = CInt | CMin rat | CMax rat | CPositive | CNonnegative

datatype strcheck = SMin nat | SMax nat

datatype unknownKeys = Strip | Strict

text \<open>
  One constructor for each Zod class the repository's schemas use: \<open>ZString cs\<close> is
  \<open>z.string()\<close> followed by the checks \<open>cs\<close> in order, \<open>ZObject shape Strip\<close> is
  \<open>z.object(shape)\<close> and \<open>ZObject shape Strict\<close> is \<open>z.object(shape).strict()\<close>,
  \<open>ZOptional s\<close> is \<open>s.optional()\<close>, \<open>ZDefault s d\<close> is \<open>s.default(d)\<close>.
\<close>

datatype schema =
    ZString "strcheck list"
  | ZNumber "numcheck list"
  | ZBoolean
  | ZAny
  | ZLiteral json
  | ZEnum "string list"
  | ZArray schema
  | ZObject "(string \<times> schema) list" unknownKeys
  | ZOptional schema
  | ZDefault schema json

datatype issue =
    invalid_type
  | invalid_literal
  | invalid_enum_value
  | unrecognized_keys
  | too_small
  | too_big

type_synonym result = "issue list + json"

text \<open>\<open>Number.isInteger\<close>\<close>

fun isInteger :: "jsnum \<Rightarrow> bool" where
  "isInteger (Fin q) = (of_int \<lfloor>q\<rfloor> = q)"
| "isInteger _ = False"

text \<open>\<open>x < v\<close> and \<open>x > v\<close> of a number that is not NaN against a finite bound.\<close>

fun num_lt :: "jsnum \<Rightarrow> rat \<Rightarrow> bool" where
  "num_lt (Fin q) v = (q < v)"
| "num_lt NegInf v = True"
| "num_lt _ v = False"

fun num_gt :: "jsnum \<Rightarrow> rat \<Rightarrow> bool" where
  "num_gt (Fin q) v = (q > v)"
| "num_gt PosInf v = True"
| "num_gt _ v = False"

fun num_le :: "jsnum \<Rightarrow> rat \<Rightarrow> bool" where
  "num_le (Fin q) v = (q \<le> v)"
| "num_le NegInf v = True"
| "num_le _ v = False"

text \<open>
  One check of a number: \<open>.int()\<close> reports a non-integer as \<open>invalid_type\<close>;
  \<open>.min(v)\<close> and \<open>.nonnegative()\<close> are inclusive lower bounds, \<open>.positive()\<close> is the
  exclusive lower bound 0, \<open>.max(v)\<close> is an inclusive upper bound.
\<close>

fun numcheck_issues :: "numcheck \<Rightarrow> jsnum \<Rightarrow> issue list" where
  "numcheck_issues CInt x = (if isInteger x then [] else [invalid_type])"
| "numcheck_issues (CMin v) x = (if num_lt x v then [too_small] else [])"
| "numcheck_issues (CMax v) x = (if num_gt x v then [too_big] else [])"
| "numcheck_issues CPositive x = (if num_le x 0 then [too_small] else [])"
| "numcheck_issues CNonnegative x = (if num_lt x 0 then [too_small] else [])"

fun strcheck_issues :: "strcheck \<Rightarrow> string \<Rightarrow> issue list" where
  "strcheck_issues (SMin n) s = (if length s < n then [too_small] else [])"
| "strcheck_issues (SMax n) s = (if length s > n then [too_big] else [])"

text \<open>The issues of all parsed parts, in order.\<close>

fun issues_of :: "result list \<Rightarrow> issue list" where
  "issues_of [] = []"
| "issues_of (Inl is # rs) = is @ issues_of rs"
| "issues_of (Inr v # rs) = issues_of rs"

fun values_of :: "result list \<Rightarrow> json list" where
  "values_of [] = []"
| "values_of (Inl is # rs) = values_of rs"
| "values_of (Inr v # rs) = v # values_of rs"

text \<open>
  \<open>mergeObjectSync\<close>: a parsed key is written to the output when its value is not
  \<open>undefined\<close> or the key is in the input.
\<close>

fun mergeObject :: "(string \<times> json) list \<Rightarrow> (string \<times> result) list \<Rightarrow> (string \<times> json) list" where
  "mergeObject kvs [] = []"
| "mergeObject kvs ((k, Inl is) # ps) = mergeObject kvs ps"
| "mergeObject kvs ((k, Inr v) # ps) =
     (if v \<noteq> JUndefined \<or> has_key kvs k then (k, v) # mergeObject kvs ps
      else mergeObject kvs ps)"

text \<open>The keys of the input that the shape does not name.\<close>

definition extraKeys :: "(string \<times> 'a) list \<Rightarrow> (string \<times> json) list \<Rightarrow> string list" where
  "extraKeys shape kvs = filter (\<lambda>k. k \<notin> set (map fst shape)) (map fst kvs)"

text \<open>
  \<open>schema.safeParse(value)\<close>: the issues found (\<open>Inl\<close>, never empty) or the parsed
  output (\<open>Inr\<close>). Every part of an array or object is parsed and all issues are collected.
  A value is an object for \<open>z.object\<close> when it is a plain object that is not classified
  as a promise.
\<close>

fun parse :: "schema \<Rightarrow> json \<Rightarrow> result" where
  "parse (ZString cs) j =
     (case j of
        JStr s \<Rightarrow>
          (let is = concat (map (\<lambda>c. strcheck_issues c s) cs)
           in if is = [] then Inr j else Inl is)
      | _ \<Rightarrow> Inl [invalid_type])"
| "parse (ZNumber cs) j =
     (case j of
        JNum x \<Rightarrow>
          (if x = NaN then Inl [invalid_type]
           else let is = concat (map (\<lambda>c. numcheck_issues c x) cs)
                in if is = [] then Inr j else Inl is)
      | _ \<Rightarrow> Inl [invalid_type])"
| "parse ZBoolean j = (case j of JBool b \<Rightarrow> Inr j | _ \<Rightarrow> Inl [invalid_type])"
| "parse ZAny j = Inr j"
| "parse (ZLiteral v) j = (if j = v then Inr j else Inl [invalid_literal])"
| "parse (ZEnum vs) j =
     (case j of
        JStr s \<Rightarrow> (if s \<in> set vs then Inr j else Inl [invalid_enum_value])
      | _ \<Rightarrow> Inl [invalid_type])"
| "parse (ZArray s) j =
     (case j of
        JArr xs \<Rightarrow>
          (let rs = map (parse s) xs
           in if issues_of rs = [] then Inr (JArr (values_of rs)) else Inl (issues_of rs))
      | _ \<Rightarrow> Inl [invalid_type])"
| "parse (ZObject shape uk) j =
     (case j of
        JObj kvs \<Rightarrow>
          (if isPromise kvs then Inl [invalid_type]
           else let ps = map (\<lambda>p. (fst p, parse (snd p) (field kvs (fst p)))) shape;
                    is = issues_of (map snd ps) @
                         (if uk = Strict \<and> extraKeys shape kvs \<noteq> [] then [unrecognized_keys] else [])
                in if is = [] then Inr (JObj (mergeObject kvs ps)) else Inl is)
      | _ \<Rightarrow> Inl [invalid_type])"
| "parse (ZOptional s) j = (if j = JUndefined then Inr JUndefined else parse s j)"
| "parse (ZDefault s d) j = (if j = JUndefined then parse s d else parse s j)"

text \<open>A schema accepts a value when parsing it succeeds.\<close>

definition accepts :: "schema \<Rightarrow> json \<Rightarrow> bool" where
  "accepts s j = (case parse s j of Inl is \<Rightarrow> False | Inr v \<Rightarrow> True)"

text \<open>Property access \<open>value.key\<close> on a parsed value.\<close>

fun get :: "json \<Rightarrow> string \<Rightarrow> json" where
  "get (JObj kvs) k = field kvs k"
| "get _ k = JUndefined"

text \<open>The JavaScript number whose value is the integer \<open>n\<close>.\<close>

definition int_value :: "int \<Rightarrow> json" where
  "int_value n = JNum (Fin (of_int n))"

text \<open>The object without the key \<open>k\<close>.\<close>

definition omit :: "string \<Rightarrow> (string \<times> json) list \<Rightarrow> (string \<times> json) list" where
  "omit k kvs = filter (\<lambda>p. fst p \<noteq> k) kvs"


section \<open>common.schema.ts\<close>

definition paginationMetadataSchema :: schema where
  "paginationMetadataSchema = ZObject
     [(''total'', ZNumber [CInt, CNonnegative]),
      (''returned'', ZNumber [CInt, CNonnegative]),
      (''hasMore'', ZBoolean),
      (''nextOffset'', ZOptional (ZNumber [CInt, CNonnegative])),
      (''currentOffset'', ZOptional (ZNumber [CInt, CNonnegative]))] Strip"

definition symbolKindCategorySchema :: schema where
  "symbolKindCategorySchema = ZEnum
     [''function'', ''class'', ''interface'', ''type'', ''variable'', ''constant'',
      ''enum'', ''module'', ''namespace'', ''method'', ''property'', ''parameter'',
      ''constructor'', ''decorator'', ''trait'', ''struct'', ''macro'', ''unknown'']"

section \<open>api-response.schema.ts\<close>

definition apiResponseSchema :: "schema \<Rightarrow> schema" where
  "apiResponseSchema dataSchema = ZObject
     [(''success'', ZLiteral (JBool True)),
      (''data'', dataSchema)] Strip"

definition apiErrorResponseSchema :: schema where
  "apiErrorResponseSchema = ZObject
     [(''success'', ZLiteral (JBool False)),
      (''error'', ZObject
         [(''code'', ZString []),
          (''message'', ZString []),
          (''details'', ZOptional ZAny)] Strip)] Strip"

text \<open>\<open>response.success === true\<close> and \<open>response.success === false\<close>\<close>

definition isSuccessResponse :: "json \<Rightarrow> bool" where
  "isSuccessResponse response = (get response ''success'' = JBool True)"

definition isErrorResponse :: "json \<Rightarrow> bool" where
  "isErrorResponse response = (get response ''success'' = JBool False)"

section \<open>The parameter schemas of the executors\<close>

definition searchSymbolsParamsSchema :: schema where
  "searchSymbolsParamsSchema = ZObject
     [(''query'', ZString [SMin 1, SMax 200]),
      (''filterByKind'', ZOptional (ZArray (ZString []))),
      (''filterByVisibility'', ZOptional (ZArray (ZString []))),
      (''isExported'', ZOptional ZBoolean),
      (''filterByFile'', ZOptional (ZString [])),
      (''limit'', ZDefault (ZNumber [CInt, CPositive, CMax 100]) (int_value 50)),
      (''offset'', ZDefault (ZNumber [CInt, CNonnegative]) (int_value 0)),
      (''includeUsageCount'', ZOptional ZBoolean),
      (''includeDocumentation'', ZOptional ZBoolean)] Strip"


definition getDependenciesParamsSchema :: schema where
  "getDependenciesParamsSchema = ZObject
     [(''filePath'', ZString [SMin 1]),
      (''depth'', ZOptional (ZNumber [CInt, CNonnegative, CMax 10])),
      (''includePackages'', ZOptional ZBoolean),
      (''includeSymbols'', ZOptional ZBoolean),
      (''limit'', ZDefault (ZNumber [CInt, CPositive, CMax 100]) (int_value 20)),
      (''offset'', ZDefault (ZNumber [CInt, CNonnegative]) (int_value 0))] Strip"

definition getDependentsParamsSchema :: schema where
  "getDependentsParamsSchema = ZObject
     [(''filePath'', ZString [SMin 1]),
      (''depth'', ZOptional (ZNumber [CInt, CNonnegative, CMax 10])),
      (''includeSymbols'', ZOptional ZBoolean),
      (''includeImpactMetrics'', ZOptional ZBoolean),
      (''limit'', ZDefault (ZNumber [CInt, CPositive, CMax 100]) (int_value 20)),
      (''offset'', ZDefault (ZNumber [CInt, CNonnegative]) (int_value 0))] Strip"

definition findCircularDependenciesParamsSchema :: schema where
  "findCircularDependenciesParamsSchema = ZObject
     [(''filePath'', ZOptional (ZString [SMin 1])),
      (''minCycleLength'', ZOptional (ZNumber [CInt, CMin 2, CMax 10])),
      (''maxCycleLength'', ZOptional (ZNumber [CInt, CMin 2, CMax 10])),
      (''limit'', ZDefault (ZNumber [CInt, CPositive, CMax 100]) (int_value 50)),
      (''offset'', ZDefault (ZNumber [CInt, CNonnegative]) (int_value 0)),
      (''includeImpactScore'', ZOptional ZBoolean),
      (''includeConfidence'', ZOptional ZBoolean)] Strip"

definition traceSymbolUsageParamsSchema :: schema where
  "traceSymbolUsageParamsSchema = ZObject
     [(''symbolId'', ZOptional (ZString [])),
      (''symbolName'', ZOptional (ZString [])),
      (''filePath'', ZOptional (ZString [])),
      (''filterByUsageType'', ZOptional (ZArray (ZString []))),
      (''filterByRelationshipType'', ZOptional (ZArray (ZString []))),
      (''includeTransitive'', ZOptional ZBoolean),
      (''includeContext'', ZOptional ZBoolean),
      (''excludeTests'', ZOptional ZBoolean),
      (''excludeGenerated'', ZOptional ZBoolean),
      (''includeImportanceWeight'', ZOptional ZBoolean),
      (''limit'', ZDefault (ZNumber [CInt, CPositive, CMax 100]) (int_value 50)),
      (''offset'', ZDefault (ZNumber [CInt, CNonnegative]) (int_value 0))] Strip"

definition getCallGraphParamsSchema :: schema where
  "getCallGraphParamsSchema = ZObject
     [(''symbolId'', ZOptional (ZString [])),
      (''symbolName'', ZOptional (ZString [])),
      (''filePath'', ZOptional (ZString [])),
      (''direction'', ZDefault (ZEnum [''callers'', ''callees'', ''both'']) (JStr ''both'')),
      (''depth'', ZDefault (ZNumber [CInt, CPositive, CMax 10]) (int_value 3)),
      (''excludeExternal'', ZOptional ZBoolean),
      (''includeGraph'', ZOptional ZBoolean),
      (''limit'', ZDefault (ZNumber [CInt, CPositive, CMax 100]) (int_value 25)),
      (''offset'', ZDefault (ZNumber [CInt, CNonnegative]) (int_value 0))] Strip"

definition impactAnalysisParamsSchema :: schema where
  "impactAnalysisParamsSchema = ZObject
     [(''symbolId'', ZOptional (ZString [])),
      (''qualifiedName'', ZOptional (ZString [])),
      (''symbolName'', ZOptional (ZString [])),
      (''filePath'', ZOptional (ZString [])),
      (''includeDirectDependents'', ZDefault ZBoolean (JBool True)),
      (''includeTransitiveDependents'', ZDefault ZBoolean (JBool True)),
      (''depth'', ZDefault (ZNumber [CInt, CMin 1, CMax 5]) (int_value 3)),
      (''excludeTests'', ZDefault ZBoolean (JBool True)),
      (''excludeGenerated'', ZDefault ZBoolean (JBool True)),
      (''analyzeBreakingChanges'', ZDefault ZBoolean (JBool True))] Strip"

definition findOrphanedCodeParamsSchema :: schema where
  "findOrphanedCodeParamsSchema = ZObject
     [(''filePattern'', ZOptional (ZString [])),
      (''filterByKind'', ZOptional (ZArray (ZString []))),
      (''exportedOnly'', ZOptional ZBoolean),
      (''excludeTests'', ZDefault ZBoolean (JBool True)),
      (''limit'', ZDefault (ZNumber [CInt, CPositive, CMax 100]) (int_value 50)),
      (''offset'', ZDefault (ZNumber [CInt, CNonnegative]) (int_value 0)),
      (''includeConfidence'', ZOptional ZBoolean)] Strip"




section \<open>indexing/import-resolution.schema.ts and the indexing response\<close>

definition importTypeSchema :: schema where
  "importTypeSchema = ZEnum [''relative'', ''workspace'', ''alias'', ''external'', ''builtin'']"

definition importResolutionSchema :: schema where
  "importResolutionSchema = ZObject
     [(''source'', ZString []),
      (''resolvedPath'', ZOptional (ZString [])),
      (''isExternal'', ZBoolean),
      (''importType'', importTypeSchema)] Strip"

definition fileFailureSchema :: schema where
  "fileFailureSchema = ZObject
     [(''file'', ZString []),
      (''error'', ZString [])] Strip"

definition relationshipFailureSchema :: schema where
  "relationshipFailureSchema = ZObject
     [(''file'', ZString []),
      (''failedCount'', ZNumber [CInt, CNonnegative]),
      (''createdCount'', ZNumber [CInt, CNonnegative]),
      (''isTransient'', ZBoolean)] Strip"

definition relationshipSummarySchema :: schema where
  "relationshipSummarySchema = ZObject
     [(''totalCreated'', ZNumber [CInt, CNonnegative]),
      (''totalFailed'', ZNumber [CInt, CNonnegative]),
      (''filesWithFailures'', ZArray relationshipFailureSchema)] Strip"

definition indexingResponseSchema :: schema where
  "indexingResponseSchema = ZObject
     [(''processed'', ZNumber [CInt, CNonnegative]),
      (''failed'', ZNumber [CInt, CNonnegative]),
      (''projectId'', ZString []),
      (''branchName'', ZString []),
      (''failedFiles'', ZOptional (ZArray fileFailureSchema)),
      (''relationships'', relationshipSummarySchema)] Strip"

section \<open>The pagination invariant of the specification\<close>

text \<open>The integer value of a number; 0 for a value that is not a finite number.\<close>

fun as_int :: "json \<Rightarrow> int" where
  "as_int (JNum (Fin q)) = \<lfloor>q\<rfloor>"
| "as_int _ = 0"

text \<open>
  The specification's invariant of a paginated result \<open>p\<close> answering a request with the
  given \<open>limit\<close> and \<open>offset\<close>: \<open>returned \<le> limit\<close> and
  \<open>hasMore == (offset + returned < total)\<close>.
\<close>

definition pagination_invariant :: "int \<Rightarrow> int \<Rightarrow> json \<Rightarrow> bool" where
  "pagination_invariant limit offset p =
     (as_int (get p ''returned'') \<le> limit \<and>
      ((get p ''hasMore'' = JBool True) =
       (offset + as_int (get p ''returned'') < as_int (get p ''total''))))"

section \<open>Properties of parsing\<close>

lemma parse_not_Inl_Nil: "parse s j \<noteq> Inl []"
proof (induction s j rule: parse.induct)
  case (7 s j)
  then show ?case by (auto split: json.splits simp: Let_def)
next
  case (8 shape uk j)
  then show ?case by (auto split: json.splits simp: Let_def)
qed (auto split: json.splits simp: Let_def)

lemma accepts_iff: "accepts s j \<longleftrightarrow> (\<exists>v. parse s j = Inr v)"
  by (cases "parse s j") (simp_all add: accepts_def)

lemma issues_of_map_Nil:
  "issues_of (map (\<lambda>x. parse (f x) (g x)) xs) = [] \<longleftrightarrow> (\<forall>x\<in>set xs. accepts (f x) (g x))"
proof (induction xs)
  case Nil
  show ?case by simp
next
  case (Cons x xs)
  show ?case
  proof (cases "parse (f x) (g x)")
    case (Inl es)
    with parse_not_Inl_Nil [of "f x" "g x"] have "es \<noteq> []" by auto
    with Inl Cons show ?thesis by (simp add: accepts_def)
  next
    case (Inr v)
    with Cons show ?thesis by (simp add: accepts_def)
  qed
qed

lemma accepts_ZObject:
  "accepts (ZObject shape uk) j \<longleftrightarrow>
     (\<exists>kvs. j = JObj kvs \<and> \<not> isPromise kvs \<and>
        (\<forall>p\<in>set shape. accepts (snd p) (field kvs (fst p))) \<and>
        (uk = Strict \<longrightarrow> extraKeys shape kvs = []))"
proof (cases j)
  case (JObj kvs)
  have "issues_of (map snd (map (\<lambda>p. (fst p, parse (snd p) (field kvs (fst p)))) shape)) = []
        \<longleftrightarrow> (\<forall>p\<in>set shape. accepts (snd p) (field kvs (fst p)))"
    using issues_of_map_Nil [of snd "\<lambda>p. field kvs (fst p)" shape] by (simp add: comp_def)
  with JObj show ?thesis by (auto simp: accepts_iff Let_def)
qed (simp_all add: accepts_iff)

lemma accepts_ZArray:
  "accepts (ZArray s) j \<longleftrightarrow> (\<exists>xs. j = JArr xs \<and> (\<forall>x\<in>set xs. accepts s x))"
proof (cases j)
  case (JArr xs)
  have "issues_of (map (parse s) xs) = [] \<longleftrightarrow> (\<forall>x\<in>set xs. accepts s x)"
    using issues_of_map_Nil [of "\<lambda>x. s" "\<lambda>x. x" xs] by simp
  with JArr show ?thesis by (auto simp: accepts_iff Let_def)
qed (simp_all add: accepts_iff)

lemma accepts_ZOptional: "accepts (ZOptional s) j \<longleftrightarrow> j = JUndefined \<or> accepts s j"
  by (simp add: accepts_iff)

lemma accepts_ZDefault:
  "accepts (ZDefault s d) j \<longleftrightarrow> (if j = JUndefined then accepts s d else accepts s j)"
  by (simp add: accepts_iff)

lemma accepts_ZBoolean: "accepts ZBoolean j \<longleftrightarrow> (\<exists>b. j = JBool b)"
  by (cases j) (simp_all add: accepts_iff)

lemma accepts_ZBoolean_JBool: "accepts ZBoolean (JBool b)"
  by (simp add: accepts_iff)

lemma accepts_ZLiteral: "accepts (ZLiteral v) j \<longleftrightarrow> j = v"
  by (simp add: accepts_iff)

lemma accepts_ZAny: "accepts ZAny j"
  by (simp add: accepts_iff)

lemma accepts_ZEnum: "accepts (ZEnum vs) j \<longleftrightarrow> (\<exists>s. j = JStr s \<and> s \<in> set vs)"
  by (cases j) (simp_all add: accepts_iff)

lemma accepts_ZString_plain: "accepts (ZString []) j \<longleftrightarrow> (\<exists>s. j = JStr s)"
  by (cases j) (simp_all add: accepts_iff)

lemma isInteger_iff: "isInteger x \<longleftrightarrow> (\<exists>n. x = Fin (of_int n))"
proof (cases x)
  case (Fin q)
  have "of_int \<lfloor>q\<rfloor> = q \<longleftrightarrow> (\<exists>n. q = of_int n)"
    by (metis floor_of_int)
  with Fin show ?thesis by simp
qed simp_all

lemma accepts_int_range:
  "accepts (ZNumber [CInt, CMin (of_int lo), CMax (of_int hi)]) j \<longleftrightarrow>
     (\<exists>n. j = int_value n \<and> lo \<le> n \<and> n \<le> hi)"
proof (cases j)
  case (JNum x)
  show ?thesis
  proof (cases x)
    case (Fin q)
    with JNum show ?thesis
      by (auto simp: accepts_iff int_value_def Let_def isInteger_iff split: if_splits)
  qed (simp_all add: JNum accepts_iff int_value_def Let_def)
qed (simp_all add: accepts_iff int_value_def)


lemma accepts_limit_checks:
  "accepts (ZNumber [CInt, CPositive, CMax (of_int hi)]) j \<longleftrightarrow>
     (\<exists>n. j = int_value n \<and> 1 \<le> n \<and> n \<le> hi)"
proof (cases j)
  case (JNum x)
  show ?thesis
  proof (cases x)
    case (Fin q)
    with JNum show ?thesis
      by (auto simp: accepts_iff int_value_def Let_def isInteger_iff split: if_splits)
  qed (simp_all add: JNum accepts_iff int_value_def Let_def)
qed (simp_all add: accepts_iff int_value_def)

lemma accepts_nonneg_max:
  "accepts (ZNumber [CInt, CNonnegative, CMax (of_int hi)]) j \<longleftrightarrow>
     (\<exists>n. j = int_value n \<and> 0 \<le> n \<and> n \<le> hi)"
proof (cases j)
  case (JNum x)
  show ?thesis
  proof (cases x)
    case (Fin q)
    with JNum show ?thesis
      by (auto simp: accepts_iff int_value_def Let_def isInteger_iff split: if_splits)
  qed (simp_all add: JNum accepts_iff int_value_def Let_def)
qed (simp_all add: accepts_iff int_value_def)

lemma accepts_nonneg_int:
  "accepts (ZNumber [CInt, CNonnegative]) j \<longleftrightarrow> (\<exists>n. j = int_value n \<and> 0 \<le> n)"
proof (cases j)
  case (JNum x)
  show ?thesis
  proof (cases x)
    case (Fin q)
    with JNum show ?thesis
      by (auto simp: accepts_iff int_value_def Let_def isInteger_iff split: if_splits)
  qed (simp_all add: JNum accepts_iff int_value_def Let_def)
qed (simp_all add: accepts_iff int_value_def)

lemma accepts_ZString_min1:
  "accepts (ZString [SMin m]) j \<longleftrightarrow> (\<exists>s. j = JStr s \<and> m \<le> length s)"
  by (cases j) (auto simp: accepts_iff Let_def)

lemma accepts_ZString_query:
  "accepts (ZString [SMin m, SMax n]) j \<longleftrightarrow>
     (\<exists>s. j = JStr s \<and> m \<le> length s \<and> length s \<le> n)"
  by (cases j) (auto simp: accepts_iff Let_def)

lemma int_value_not_undefined [simp]: "int_value n \<noteq> JUndefined" "JUndefined \<noteq> int_value n"
  by (simp_all add: int_value_def)

lemma int_value_eq [simp]: "int_value m = int_value n \<longleftrightarrow> m = n"
  by (simp add: int_value_def)

lemma field_Nil [simp]: "field [] k = JUndefined"
  by (simp add: field_def)

lemma field_Cons [simp]: "field ((k', v) # kvs) k = (if k = k' then v else field kvs k)"
  by (simp add: field_def)

lemma field_omit [simp]: "field (omit k kvs) k' = (if k' = k then JUndefined else field kvs k')"
  by (induction kvs) (auto simp: omit_def field_def)

lemma isPromise_Nil [simp]: "\<not> isPromise []"
  by (simp add: isPromise_def)

lemma isPromise_Cons [simp]:
  "isPromise ((k, v) # kvs) \<longleftrightarrow>
     (if k = ''then'' then v else field kvs ''then'') = JFun \<and>
     (if k = ''catch'' then v else field kvs ''catch'') = JFun"
  by (simp add: isPromise_def)

lemma isPromise_omit [simp]:
  "k \<noteq> ''then'' \<Longrightarrow> k \<noteq> ''catch'' \<Longrightarrow> isPromise (omit k kvs) = isPromise kvs"
  by (simp add: isPromise_def)

lemma field_mergeObject_absent:
  "k \<notin> fst ` set ps \<Longrightarrow> field (mergeObject kvs ps) k = JUndefined"
  by (induction kvs ps rule: mergeObject.induct) auto

lemma field_mergeObject:
  assumes "distinct (map fst shape)" and "(k, s) \<in> set shape"
    and "parse s (field kvs k) = Inr v"
  shows "field (mergeObject kvs (map (\<lambda>p. (fst p, parse (snd p) (field kvs (fst p)))) shape)) k = v"
  using assms
proof (induction shape)
  case Nil
  then show ?case by simp
next
  case (Cons p shape)
  let ?f = "\<lambda>p. (fst p, parse (snd p) (field kvs (fst p)))"
  show ?case
  proof (cases "fst p = k")
    case True
    with Cons.prems have ps: "p = (k, s)"
      by (cases p) (auto simp: image_iff)
    from Cons.prems ps have "k \<notin> fst ` set (map ?f shape)"
      by (auto simp: image_iff)
    then have "field (mergeObject kvs (map ?f shape)) k = JUndefined"
      by (rule field_mergeObject_absent)
    with ps Cons.prems(3) show ?thesis by simp
  next
    case False
    with Cons.prems have "(k, s) \<in> set shape" by auto
    with Cons have IH: "field (mergeObject kvs (map ?f shape)) k = v" by simp
    from False IH show ?thesis
      by (cases p; cases "parse (snd p) (field kvs (fst p))") auto
  qed
qed

lemma parse_ZObject_get:
  assumes "parse (ZObject shape uk) (JObj kvs) = Inr out"
    and "distinct (map fst shape)" and "(k, s) \<in> set shape"
  shows "parse s (field kvs k) = Inr (get out k)"
proof -
  from assms(1) have "accepts (ZObject shape uk) (JObj kvs)"
    by (simp add: accepts_iff)
  with assms(3) have "accepts s (field kvs k)"
    by (auto simp: accepts_ZObject)
  then obtain v where v: "parse s (field kvs k) = Inr v"
    by (auto simp: accepts_iff)
  from assms(1) have "out = JObj (mergeObject kvs (map (\<lambda>p. (fst p, parse (snd p) (field kvs (fst p)))) shape))"
    by (simp add: Let_def split: if_splits)
  with field_mergeObject [OF assms(2,3) v] v show ?thesis by simp
qed

lemma parse_ZNumber_Inr: "parse (ZNumber cs) j = Inr v \<Longrightarrow> v = j"
  by (cases j) (auto simp: Let_def split: if_splits)

lemma parse_ZBoolean_Inr: "parse ZBoolean j = Inr v \<Longrightarrow> v = j"
  by (cases j) auto

lemma parse_default_number:
  assumes "parse (ZDefault (ZNumber cs) d) j = Inr v"
  shows "v = (if j = JUndefined then d else j)"
  using assms parse_ZNumber_Inr by (auto split: if_splits)

lemma parse_default_boolean:
  assumes "parse (ZDefault ZBoolean d) j = Inr v"
  shows "v = (if j = JUndefined then d else j)"
  using assms parse_ZBoolean_Inr by (auto split: if_splits)

lemma pagination_shape_accepts:
  assumes dist: "distinct (map fst shape)"
    and lim: "(''limit'', ZDefault (ZNumber [CInt, CPositive, CMax 100]) (int_value d)) \<in> set shape"
    and off: "(''offset'', ZDefault (ZNumber [CInt, CNonnegative]) (int_value 0)) \<in> set shape"
    and d: "1 \<le> d" "d \<le> 100"
  shows "accepts (ZObject shape Strip) (JObj kvs) \<longleftrightarrow>
     (field kvs ''limit'' = JUndefined \<or> (\<exists>n. field kvs ''limit'' = int_value n \<and> 1 \<le> n \<and> n \<le> 100)) \<and>
     (field kvs ''offset'' = JUndefined \<or> (\<exists>n. field kvs ''offset'' = int_value n \<and> 0 \<le> n)) \<and>
     accepts (ZObject shape Strip) (JObj (omit ''limit'' (omit ''offset'' kvs)))"
    (is "?A \<longleftrightarrow> ?L \<and> ?O \<and> ?R")
proof -
  let ?ls = "ZDefault (ZNumber [CInt, CPositive, CMax 100]) (int_value d)"
  let ?os = "ZDefault (ZNumber [CInt, CNonnegative]) (int_value 0)"
  have aL: "accepts ?ls v \<longleftrightarrow> v = JUndefined \<or> (\<exists>n. v = int_value n \<and> 1 \<le> n \<and> n \<le> 100)" for v
    using accepts_limit_checks [of 100] d by (auto simp: accepts_ZDefault)
  have aO: "accepts ?os v \<longleftrightarrow> v = JUndefined \<or> (\<exists>n. v = int_value n \<and> 0 \<le> n)" for v
    by (auto simp: accepts_ZDefault accepts_nonneg_int)
  have kL: "snd p = ?ls" if "p \<in> set shape" "fst p = ''limit''" for p
  proof -
    from that have "(''limit'', snd p) \<in> set shape" by (metis prod.collapse)
    with dist lim show ?thesis by (rule eq_key_imp_eq_value [symmetric])
  qed
  have kO: "snd p = ?os" if "p \<in> set shape" "fst p = ''offset''" for p
  proof -
    from that have "(''offset'', snd p) \<in> set shape" by (metis prod.collapse)
    with dist off show ?thesis by (rule eq_key_imp_eq_value [symmetric])
  qed
  have A: "?A \<longleftrightarrow> \<not> isPromise kvs \<and> (\<forall>p\<in>set shape. accepts (snd p) (field kvs (fst p)))"
    by (simp add: accepts_ZObject)
  have pt: "accepts (snd p) (field (omit ''limit'' (omit ''offset'' kvs)) (fst p)) \<longleftrightarrow>
      (fst p \<noteq> ''limit'' \<and> fst p \<noteq> ''offset'' \<longrightarrow> accepts (snd p) (field kvs (fst p)))"
    if "p \<in> set shape" for p
  proof (cases "fst p = ''limit''")
    case True
    with kL [OF that] show ?thesis by (simp add: aL)
  next
    case False
    show ?thesis
    proof (cases "fst p = ''offset''")
      case True
      with kO [OF that] show ?thesis by (simp add: aO)
    next
      case no: False
      with False show ?thesis by simp
    qed
  qed
  have R: "?R \<longleftrightarrow> \<not> isPromise kvs \<and>
      (\<forall>p\<in>set shape. fst p \<noteq> ''limit'' \<and> fst p \<noteq> ''offset'' \<longrightarrow> accepts (snd p) (field kvs (fst p)))"
  proof -
    have "?R \<longleftrightarrow> \<not> isPromise kvs \<and>
        (\<forall>p\<in>set shape. accepts (snd p) (field (omit ''limit'' (omit ''offset'' kvs)) (fst p)))"
      by (simp add: accepts_ZObject del: field_omit)
    also have "\<dots> \<longleftrightarrow> \<not> isPromise kvs \<and>
        (\<forall>p\<in>set shape. fst p \<noteq> ''limit'' \<and> fst p \<noteq> ''offset'' \<longrightarrow> accepts (snd p) (field kvs (fst p)))"
      using pt by blast
    finally show ?thesis .
  qed
  have L: "?A \<Longrightarrow> ?L"
  proof -
    assume ?A
    with A lim have "accepts ?ls (field kvs ''limit'')" by fastforce
    then show ?L by (simp only: aL)
  qed
  have O: "?A \<Longrightarrow> ?O"
  proof -
    assume ?A
    with A off have "accepts ?os (field kvs ''offset'')" by fastforce
    then show ?O by (simp only: aO)
  qed
  have conv: "?A" if l: ?L and o: ?O and r: ?R
  proof -
    from r have np: "\<not> isPromise kvs" unfolding R by blast
    have "\<forall>p\<in>set shape. accepts (snd p) (field kvs (fst p))"
    proof
      fix p assume p: "p \<in> set shape"
      show "accepts (snd p) (field kvs (fst p))"
      proof (cases "fst p = ''limit''")
        case True
        with kL [OF p] l show ?thesis by (simp only: aL)
      next
        case False
        show ?thesis
        proof (cases "fst p = ''offset''")
          case True
          with kO [OF p] o show ?thesis by (simp only: aO)
        next
          case no: False
          with False r p show ?thesis unfolding R by blast
        qed
      qed
    qed
    with np show ?thesis unfolding A by blast
  qed
  from L O conv A R show ?thesis by blast
qed

lemma pagination_shape_output:
  assumes dist: "distinct (map fst shape)"
    and lim: "(''limit'', ZDefault (ZNumber [CInt, CPositive, CMax 100]) (int_value d)) \<in> set shape"
    and off: "(''offset'', ZDefault (ZNumber [CInt, CNonnegative]) (int_value 0)) \<in> set shape"
    and p: "parse (ZObject shape Strip) (JObj kvs) = Inr out"
  shows "get out ''limit'' = (if field kvs ''limit'' = JUndefined then int_value d else field kvs ''limit'')"
    and "get out ''offset'' = (if field kvs ''offset'' = JUndefined then int_value 0 else field kvs ''offset'')"
  using parse_default_number [OF parse_ZObject_get [OF p dist lim]]
    parse_default_number [OF parse_ZObject_get [OF p dist off]]
  by simp_all


lemma paginated_schema_shape:
  assumes "(S, d) \<in> {(searchSymbolsParamsSchema, 50), (getDependenciesParamsSchema, 20),
      (getDependentsParamsSchema, 20), (getCallGraphParamsSchema, 25),
      (findCircularDependenciesParamsSchema, 50), (traceSymbolUsageParamsSchema, 50),
      (findOrphanedCodeParamsSchema, 50)}"
  obtains shape where "S = ZObject shape Strip" and "distinct (map fst shape)"
    and "(''limit'', ZDefault (ZNumber [CInt, CPositive, CMax 100]) (int_value d)) \<in> set shape"
    and "(''offset'', ZDefault (ZNumber [CInt, CNonnegative]) (int_value 0)) \<in> set shape"
    and "20 \<le> d" and "d \<le> 50"
    and "accepts S (JObj [(''query'', JStr ''q''), (''filePath'', JStr ''f'')])"
proof -
  from assms consider
      "S = searchSymbolsParamsSchema" "d = 50"
    | "S = getDependenciesParamsSchema" "d = 20"
    | "S = getDependentsParamsSchema" "d = 20"
    | "S = getCallGraphParamsSchema" "d = 25"
    | "S = findCircularDependenciesParamsSchema" "d = 50"
    | "S = traceSymbolUsageParamsSchema" "d = 50"
    | "S = findOrphanedCodeParamsSchema" "d = 50"
    by auto
  then show thesis
  proof cases
    case 1
    show thesis
      by (rule that [of "case S of ZObject shape uk \<Rightarrow> shape"])
        (simp_all add: 1 searchSymbolsParamsSchema_def accepts_ZObject accepts_ZOptional
          accepts_ZDefault accepts_ZString_query accepts_ZString_plain accepts_nonneg_int
          accepts_limit_checks [of 100, simplified])
  next
    case 2
    show thesis
      by (rule that [of "case S of ZObject shape uk \<Rightarrow> shape"])
        (simp_all add: 2 getDependenciesParamsSchema_def accepts_ZObject accepts_ZOptional
          accepts_ZDefault accepts_ZString_min1 accepts_ZString_plain accepts_nonneg_int
          accepts_limit_checks [of 100, simplified])
  next
    case 3
    show thesis
      by (rule that [of "case S of ZObject shape uk \<Rightarrow> shape"])
        (simp_all add: 3 getDependentsParamsSchema_def accepts_ZObject accepts_ZOptional
          accepts_ZDefault accepts_ZString_min1 accepts_ZString_plain accepts_nonneg_int
          accepts_limit_checks [of 100, simplified])
  next
    case 4
    show thesis
      by (rule that [of "case S of ZObject shape uk \<Rightarrow> shape"])
        (simp_all add: 4 getCallGraphParamsSchema_def accepts_ZObject accepts_ZOptional
          accepts_ZDefault accepts_ZEnum accepts_ZString_plain accepts_nonneg_int
          accepts_limit_checks [of 100, simplified] accepts_limit_checks [of 10, simplified])
  next
    case 5
    show thesis
      by (rule that [of "case S of ZObject shape uk \<Rightarrow> shape"])
        (simp_all add: 5 findCircularDependenciesParamsSchema_def accepts_ZObject accepts_ZOptional
          accepts_ZDefault accepts_ZString_min1 accepts_ZString_plain accepts_nonneg_int
          accepts_limit_checks [of 100, simplified])
  next
    case 6
    show thesis
      by (rule that [of "case S of ZObject shape uk \<Rightarrow> shape"])
        (simp_all add: 6 traceSymbolUsageParamsSchema_def accepts_ZObject accepts_ZOptional
          accepts_ZDefault accepts_ZString_plain accepts_nonneg_int
          accepts_limit_checks [of 100, simplified])
  next
    case 7
    show thesis
      by (rule that [of "case S of ZObject shape uk \<Rightarrow> shape"])
        (simp_all add: 7 findOrphanedCodeParamsSchema_def accepts_ZObject accepts_ZOptional
          accepts_ZDefault accepts_ZString_plain accepts_ZBoolean_JBool accepts_nonneg_int
          accepts_limit_checks [of 100, simplified])
  qed
qed

section \<open>Pagination parameters\<close>

text \<open>
  Claim C1. Each of the seven parameter schemas with pagination (searchSymbols,
  getDependencies, getDependents, getCallGraph, findCircularDependencies, traceSymbolUsage,
  findOrphanedCode, paired here with the default of its \<open>limit\<close>) accepts an object
  exactly when its \<open>limit\<close> is absent or an integer from 1 to 100, its \<open>offset\<close> is absent
  or a nonnegative integer, and the object without these two keys is accepted: every other
  value of \<open>limit\<close> or \<open>offset\<close> is rejected, and leaving them out never is the reason
  for a rejection. The parsed output carries the given \<open>limit\<close> and \<open>offset\<close>, or the
  default of the schema (between 20 and 50; 50 for searchSymbols, 20 for getDependents)
  and 0 when they are absent; the input \<open>{query: "q", filePath: "f"}\<close>, which omits both,
  is parsed successfully by all seven. A key is absent when reading it gives
  \<open>undefined\<close>.
\<close>

theorem paginated_params_limit_offset:
  assumes "(S, d) \<in> {(searchSymbolsParamsSchema, 50), (getDependenciesParamsSchema, 20),
      (getDependentsParamsSchema, 20), (getCallGraphParamsSchema, 25),
      (findCircularDependenciesParamsSchema, 50), (traceSymbolUsageParamsSchema, 50),
      (findOrphanedCodeParamsSchema, 50)}"
  shows "(accepts S (JObj kvs) \<longleftrightarrow>
           (field kvs ''limit'' = JUndefined \<or>
              (\<exists>n. field kvs ''limit'' = int_value n \<and> 1 \<le> n \<and> n \<le> 100)) \<and>
           (field kvs ''offset'' = JUndefined \<or>
              (\<exists>n. field kvs ''offset'' = int_value n \<and> 0 \<le> n)) \<and>
           accepts S (JObj (omit ''limit'' (omit ''offset'' kvs)))) \<and>
         (\<forall>out. parse S (JObj kvs) = Inr out \<longrightarrow>
            get out ''limit'' =
              (if field kvs ''limit'' = JUndefined then int_value d else field kvs ''limit'') \<and>
            get out ''offset'' =
              (if field kvs ''offset'' = JUndefined then int_value 0 else field kvs ''offset'')) \<and>
         (\<exists>out. parse S (JObj [(''query'', JStr ''q''), (''filePath'', JStr ''f'')]) = Inr out \<and>
            get out ''limit'' = int_value d \<and> get out ''offset'' = int_value 0) \<and>
         20 \<le> d \<and> d \<le> 50"
proof -
  from assms obtain shape where S: "S = ZObject shape Strip"
    and dist: "distinct (map fst shape)"
    and lim: "(''limit'', ZDefault (ZNumber [CInt, CPositive, CMax 100]) (int_value d)) \<in> set shape"
    and off: "(''offset'', ZDefault (ZNumber [CInt, CNonnegative]) (int_value 0)) \<in> set shape"
    and d: "20 \<le> d" "d \<le> 50"
    and ex: "accepts S (JObj [(''query'', JStr ''q''), (''filePath'', JStr ''f'')])"
    by (rule paginated_schema_shape)
  from d have d': "1 \<le> d" "d \<le> 100" by simp_all
  note acc = pagination_shape_accepts [OF dist lim off d', of kvs, folded S]
  have outp: "\<forall>out. parse S (JObj kvs) = Inr out \<longrightarrow>
            get out ''limit'' =
              (if field kvs ''limit'' = JUndefined then int_value d else field kvs ''limit'') \<and>
            get out ''offset'' =
              (if field kvs ''offset'' = JUndefined then int_value 0 else field kvs ''offset'')"
    unfolding S using pagination_shape_output [OF dist lim off] by blast
  from ex obtain out where out: "parse S (JObj [(''query'', JStr ''q''), (''filePath'', JStr ''f'')]) = Inr out"
    by (auto simp: accepts_iff)
  from pagination_shape_output [OF dist lim off out [unfolded S]]
  have "get out ''limit'' = int_value d \<and> get out ''offset'' = int_value 0"
    by simp
  with out have "\<exists>out. parse S (JObj [(''query'', JStr ''q''), (''filePath'', JStr ''f'')]) = Inr out \<and>
            get out ''limit'' = int_value d \<and> get out ''offset'' = int_value 0"
    by blast
  with acc outp d show ?thesis by blast
qed

theorem paginated_params_limit_offset_witness:
  "\<not> accepts searchSymbolsParamsSchema (JObj [(''query'', JStr ''x''), (''limit'', int_value 101)]) \<and>
   \<not> accepts searchSymbolsParamsSchema (JObj [(''query'', JStr ''x''), (''offset'', int_value (- 1))]) \<and>
   (\<exists>out. parse searchSymbolsParamsSchema (JObj [(''query'', JStr ''q''), (''filePath'', JStr ''f'')]) = Inr out \<and>
      get out ''limit'' = int_value 50 \<and> get out ''offset'' = int_value 0)"
  using paginated_params_limit_offset [of searchSymbolsParamsSchema 50
      "[(''query'', JStr ''x''), (''limit'', int_value 101)]"]
    paginated_params_limit_offset [of searchSymbolsParamsSchema 50
      "[(''query'', JStr ''x''), (''offset'', int_value (- 1))]"]
  by simp

section \<open>Objects, key by key\<close>

lemma accepts_ZObject_split:
  assumes dist: "distinct (map fst shape)" and mem: "(k, s) \<in> set shape"
    and undef: "accepts s JUndefined"
    and nk: "k \<notin> {''then'', ''catch''}"
  shows "accepts (ZObject shape Strip) (JObj kvs) \<longleftrightarrow>
     accepts s (field kvs k) \<and> accepts (ZObject shape Strip) (JObj (omit k kvs))"
    (is "?A \<longleftrightarrow> ?K \<and> ?R")
proof -
  from nk have pk: "isPromise (omit k kvs) = isPromise kvs"
    by simp
  have ks: "snd p = s" if "p \<in> set shape" "fst p = k" for p
  proof -
    from that have "(k, snd p) \<in> set shape" by (metis prod.collapse)
    with dist mem show ?thesis by (rule eq_key_imp_eq_value [symmetric])
  qed
  have A: "?A \<longleftrightarrow> \<not> isPromise kvs \<and> (\<forall>p\<in>set shape. accepts (snd p) (field kvs (fst p)))"
    by (simp add: accepts_ZObject)
  have pt: "accepts (snd p) (field (omit k kvs) (fst p)) \<longleftrightarrow>
      (fst p \<noteq> k \<longrightarrow> accepts (snd p) (field kvs (fst p)))"
    if "p \<in> set shape" for p
  proof (cases "fst p = k")
    case True
    with ks [OF that] undef show ?thesis by simp
  next
    case False
    then show ?thesis by simp
  qed
  have R: "?R \<longleftrightarrow> \<not> isPromise kvs \<and>
      (\<forall>p\<in>set shape. fst p \<noteq> k \<longrightarrow> accepts (snd p) (field kvs (fst p)))"
  proof -
    have "?R \<longleftrightarrow> \<not> isPromise kvs \<and>
        (\<forall>p\<in>set shape. accepts (snd p) (field (omit k kvs) (fst p)))"
      by (simp add: accepts_ZObject pk del: field_omit isPromise_omit)
    also have "\<dots> \<longleftrightarrow> \<not> isPromise kvs \<and>
        (\<forall>p\<in>set shape. fst p \<noteq> k \<longrightarrow> accepts (snd p) (field kvs (fst p)))"
      using pt by blast
    finally show ?thesis .
  qed
  have K: "?K" if ?A
    using that mem unfolding A by fastforce
  have conv: "?A" if kk: ?K and r: ?R
  proof -
    from r have np: "\<not> isPromise kvs" unfolding R by blast
    have "\<forall>p\<in>set shape. accepts (snd p) (field kvs (fst p))"
    proof
      fix p assume p: "p \<in> set shape"
      show "accepts (snd p) (field kvs (fst p))"
      proof (cases "fst p = k")
        case True
        with ks [OF p] kk show ?thesis by simp
      next
        case False
        with r p show ?thesis unfolding R by blast
      qed
    qed
    with np show ?thesis unfolding A by blast
  qed
  from K conv A R show ?thesis by blast
qed

lemma parse_ZOptional_number:
  assumes "parse (ZOptional (ZNumber cs)) j = Inr v"
  shows "v = j"
  using assms parse_ZNumber_Inr by (auto split: if_splits)







section \<open>Pagination metadata\<close>

lemma as_int_int_value [simp]: "as_int (int_value n) = n"
  by (simp add: int_value_def)

text \<open>
  Claim C2, as stated, fails: the pagination metadata schema accepts the value
  \<open>{total: 0, returned: 5, hasMore: true, currentOffset: 0}\<close>, which breaks the
  pagination invariant for the request with limit 100 and offset 0, since \<open>hasMore\<close> is
  true although \<open>0 + 5 < 0\<close> is false.
\<close>

theorem pagination_metadata_invariant_counterexample:
  "accepts paginationMetadataSchema
     (JObj [(''total'', int_value 0), (''returned'', int_value 5), (''hasMore'', JBool True),
            (''currentOffset'', int_value 0)]) \<and>
   \<not> pagination_invariant 100 0
     (JObj [(''total'', int_value 0), (''returned'', int_value 5), (''hasMore'', JBool True),
            (''currentOffset'', int_value 0)])"
  by (simp add: paginationMetadataSchema_def accepts_ZObject accepts_ZOptional
      accepts_nonneg_int accepts_ZBoolean_JBool pagination_invariant_def)

text \<open>
  Claim C2, amended. The pagination metadata schema accepts exactly the objects, not
  classified as a promise (\<open>then\<close> and \<open>catch\<close> not both functions), whose
  \<open>total\<close> and \<open>returned\<close> are nonnegative integers, whose \<open>hasMore\<close> is a boolean, and
  whose \<open>nextOffset\<close> and \<open>currentOffset\<close> are each absent or a nonnegative integer. It
  checks each field on its own and relates none of them to another or to a requested limit.
\<close>

theorem pagination_metadata_shape:
  "accepts paginationMetadataSchema j \<longleftrightarrow>
     (\<exists>kvs. j = JObj kvs \<and> \<not> isPromise kvs \<and>
        (\<exists>n. field kvs ''total'' = int_value n \<and> 0 \<le> n) \<and>
        (\<exists>n. field kvs ''returned'' = int_value n \<and> 0 \<le> n) \<and>
        (\<exists>b. field kvs ''hasMore'' = JBool b) \<and>
        (field kvs ''nextOffset'' = JUndefined \<or>
           (\<exists>n. field kvs ''nextOffset'' = int_value n \<and> 0 \<le> n)) \<and>
        (field kvs ''currentOffset'' = JUndefined \<or>
           (\<exists>n. field kvs ''currentOffset'' = int_value n \<and> 0 \<le> n)))"
  by (simp add: paginationMetadataSchema_def accepts_ZObject accepts_ZOptional
      accepts_nonneg_int accepts_ZBoolean)

theorem pagination_metadata_shape_witness:
  "accepts paginationMetadataSchema
     (JObj [(''total'', int_value 7), (''returned'', int_value 2), (''hasMore'', JBool False)]) \<and>
   \<not> accepts paginationMetadataSchema
     (JObj [(''total'', int_value 7), (''returned'', int_value (- 2)), (''hasMore'', JBool False)]) \<and>
   \<not> accepts paginationMetadataSchema
     (JObj [(''total'', int_value 1), (''returned'', int_value 1), (''hasMore'', JBool False),
            (''then'', JFun), (''catch'', JFun)])"
  using pagination_metadata_shape
    [of "JObj [(''total'', int_value 7), (''returned'', int_value 2), (''hasMore'', JBool False)]"]
    pagination_metadata_shape
    [of "JObj [(''total'', int_value 7), (''returned'', int_value (- 2)), (''hasMore'', JBool False)]"]
    pagination_metadata_shape
    [of "JObj [(''total'', int_value 1), (''returned'', int_value 1), (''hasMore'', JBool False),
            (''then'', JFun), (''catch'', JFun)]"]
  by auto

section \<open>Traversal depth\<close>

text \<open>
  Claim C3. The getDependencies and getDependents parameter schemas accept an object
  exactly when its \<open>depth\<close> is absent or an integer from 0 to 10 and the object without
  \<open>depth\<close> is accepted: a negative depth, a depth above 10 and a depth that is not an
  integer are rejected, and an input that omits \<open>depth\<close>, such as \<open>{filePath: "f"}\<close>, is
  accepted. The parsed output carries the depth as given (0 included), or none.
\<close>

theorem dependency_depth_range:
  assumes "S \<in> {getDependenciesParamsSchema, getDependentsParamsSchema}"
  shows "(accepts S (JObj kvs) \<longleftrightarrow>
           (field kvs ''depth'' = JUndefined \<or>
              (\<exists>n. field kvs ''depth'' = int_value n \<and> 0 \<le> n \<and> n \<le> 10)) \<and>
           accepts S (JObj (omit ''depth'' kvs))) \<and>
         (\<forall>out. parse S (JObj kvs) = Inr out \<longrightarrow> get out ''depth'' = field kvs ''depth'') \<and>
         accepts S (JObj [(''filePath'', JStr ''f'')])"
proof -
  let ?ds = "ZOptional (ZNumber [CInt, CNonnegative, CMax 10])"
  from assms obtain shape where S: "S = ZObject shape Strip"
    and dist: "distinct (map fst shape)"
    and mem: "(''depth'', ?ds) \<in> set shape"
    and ex: "accepts S (JObj [(''filePath'', JStr ''f'')])"
  proof -
    assume r: "\<And>shape. S = ZObject shape Strip \<Longrightarrow> distinct (map fst shape) \<Longrightarrow>
      (''depth'', ?ds) \<in> set shape \<Longrightarrow> accepts S (JObj [(''filePath'', JStr ''f'')]) \<Longrightarrow> thesis"
    from assms consider "S = getDependenciesParamsSchema" | "S = getDependentsParamsSchema"
      by auto
    then show thesis
    proof cases
      case 1
      show thesis
        by (rule r [of "case S of ZObject shape uk \<Rightarrow> shape"])
          (simp_all add: 1 getDependenciesParamsSchema_def accepts_ZObject accepts_ZOptional
            accepts_ZDefault accepts_ZString_min1 accepts_nonneg_int
            accepts_limit_checks [of 100, simplified])
    next
      case 2
      show thesis
        by (rule r [of "case S of ZObject shape uk \<Rightarrow> shape"])
          (simp_all add: 2 getDependentsParamsSchema_def accepts_ZObject accepts_ZOptional
            accepts_ZDefault accepts_ZString_min1 accepts_nonneg_int
            accepts_limit_checks [of 100, simplified])
    qed
  qed
  have aD: "accepts ?ds v \<longleftrightarrow>
      v = JUndefined \<or> (\<exists>n. v = int_value n \<and> 0 \<le> n \<and> n \<le> 10)" for v
    using accepts_nonneg_max [of 10 v] by (simp add: accepts_ZOptional)
  have nk: "''depth'' \<notin> {''then'', ''catch''}" by simp
  have "accepts ?ds JUndefined" by (simp add: accepts_ZOptional)
  from accepts_ZObject_split [OF dist mem this nk, of kvs, folded S]
  have acc: "accepts S (JObj kvs) \<longleftrightarrow>
           (field kvs ''depth'' = JUndefined \<or>
              (\<exists>n. field kvs ''depth'' = int_value n \<and> 0 \<le> n \<and> n \<le> 10)) \<and>
           accepts S (JObj (omit ''depth'' kvs))"
    by (simp only: aD)
  have outp: "get out ''depth'' = field kvs ''depth''" if "parse S (JObj kvs) = Inr out" for out
    using parse_ZOptional_number [OF parse_ZObject_get [OF that [unfolded S] dist mem]] .
  from acc outp ex show ?thesis by blast
qed

theorem dependency_depth_range_witness:
  "accepts getDependenciesParamsSchema (JObj [(''filePath'', JStr ''f''), (''depth'', int_value 0)]) \<and>
   \<not> accepts getDependentsParamsSchema (JObj [(''filePath'', JStr ''f''), (''depth'', int_value 11)]) \<and>
   \<not> accepts getDependentsParamsSchema (JObj [(''filePath'', JStr ''f''), (''depth'', int_value (- 1))])"
proof -
  have eq: "omit ''depth'' [(''filePath'', JStr ''f''), (''depth'', d)] = [(''filePath'', JStr ''f'')]" for d
    by (simp add: omit_def)
  show ?thesis
    using dependency_depth_range [of getDependenciesParamsSchema
        "[(''filePath'', JStr ''f''), (''depth'', int_value 0)]"]
      dependency_depth_range [of getDependentsParamsSchema
        "[(''filePath'', JStr ''f''), (''depth'', int_value 11)]"]
      dependency_depth_range [of getDependentsParamsSchema
        "[(''filePath'', JStr ''f''), (''depth'', int_value (- 1))]"]
    by (simp add: eq)
qed

section \<open>Impact analysis parameters\<close>

text \<open>
  Claim C4, as stated, fails: 0 is an integer that is at most 5, and the impactAnalysis
  parameter schema rejects the depth 0 (its lower bound is 1), while it accepts the same
  input with depth 1.
\<close>

theorem impact_analysis_depth_counterexample:
  "accepts impactAnalysisParamsSchema (JObj [(''depth'', int_value 1)]) \<and>
   \<not> accepts impactAnalysisParamsSchema (JObj [(''depth'', int_value 0)])"
  by (simp add: impactAnalysisParamsSchema_def accepts_ZObject accepts_ZOptional
      accepts_ZDefault accepts_ZBoolean_JBool accepts_int_range [of 1 5, simplified])

lemma impactAnalysis_shape:
  obtains shape where "impactAnalysisParamsSchema = ZObject shape Strip"
    and "distinct (map fst shape)"
    and "(''depth'', ZDefault (ZNumber [CInt, CMin 1, CMax 5]) (int_value 3)) \<in> set shape"
    and "\<forall>t\<in>{''excludeTests'', ''excludeGenerated'', ''includeDirectDependents'',
            ''includeTransitiveDependents'', ''analyzeBreakingChanges''}.
          (t, ZDefault ZBoolean (JBool True)) \<in> set shape"
  by (rule that [of "case impactAnalysisParamsSchema of ZObject shape uk \<Rightarrow> shape"])
    (auto simp: impactAnalysisParamsSchema_def)

text \<open>
  Claim C4, amended. The impactAnalysis parameter schema accepts an object exactly when
  its \<open>depth\<close> is absent or an integer from 1 to 5 and the object without \<open>depth\<close> is
  accepted: depth 0, negative depths and depths above 5 are rejected. Parsing an input
  that omits \<open>depth\<close> gives depth 3, each of the toggles \<open>excludeTests\<close>,
  \<open>excludeGenerated\<close>, \<open>includeDirectDependents\<close>, \<open>includeTransitiveDependents\<close> and
  \<open>analyzeBreakingChanges\<close> is true in the output when omitted, and the empty object is
  parsed successfully to these six defaults.
\<close>

theorem impact_analysis_depth_and_defaults:
  "(accepts impactAnalysisParamsSchema (JObj kvs) \<longleftrightarrow>
      (field kvs ''depth'' = JUndefined \<or>
         (\<exists>n. field kvs ''depth'' = int_value n \<and> 1 \<le> n \<and> n \<le> 5)) \<and>
      accepts impactAnalysisParamsSchema (JObj (omit ''depth'' kvs))) \<and>
   (\<forall>out. parse impactAnalysisParamsSchema (JObj kvs) = Inr out \<longrightarrow>
      get out ''depth'' =
        (if field kvs ''depth'' = JUndefined then int_value 3 else field kvs ''depth'') \<and>
      (\<forall>t\<in>{''excludeTests'', ''excludeGenerated'', ''includeDirectDependents'',
            ''includeTransitiveDependents'', ''analyzeBreakingChanges''}.
         get out t = (if field kvs t = JUndefined then JBool True else field kvs t))) \<and>
   parse impactAnalysisParamsSchema (JObj []) =
     Inr (JObj [(''includeDirectDependents'', JBool True),
                (''includeTransitiveDependents'', JBool True),
                (''depth'', int_value 3),
                (''excludeTests'', JBool True),
                (''excludeGenerated'', JBool True),
                (''analyzeBreakingChanges'', JBool True)])"
proof -
  let ?ds = "ZDefault (ZNumber [CInt, CMin 1, CMax 5]) (int_value 3)"
  obtain shape where S: "impactAnalysisParamsSchema = ZObject shape Strip"
    and dist: "distinct (map fst shape)"
    and mem: "(''depth'', ?ds) \<in> set shape"
    and tog: "\<forall>t\<in>{''excludeTests'', ''excludeGenerated'', ''includeDirectDependents'',
            ''includeTransitiveDependents'', ''analyzeBreakingChanges''}.
          (t, ZDefault ZBoolean (JBool True)) \<in> set shape"
    by (rule impactAnalysis_shape)
  have aD: "accepts ?ds v \<longleftrightarrow>
      v = JUndefined \<or> (\<exists>n. v = int_value n \<and> 1 \<le> n \<and> n \<le> 5)" for v
    using accepts_int_range [of 1 5 v] accepts_int_range [of 1 5 "int_value 3"]
    by (auto simp: accepts_ZDefault)
  then have u: "accepts ?ds JUndefined" by simp
  have nk: "''depth'' \<notin> {''then'', ''catch''}" by simp
  from accepts_ZObject_split [OF dist mem u nk, of kvs, folded S]
  have acc: "accepts impactAnalysisParamsSchema (JObj kvs) \<longleftrightarrow>
      (field kvs ''depth'' = JUndefined \<or>
         (\<exists>n. field kvs ''depth'' = int_value n \<and> 1 \<le> n \<and> n \<le> 5)) \<and>
      accepts impactAnalysisParamsSchema (JObj (omit ''depth'' kvs))"
    by (simp only: aD)
  have outp: "get out ''depth'' =
        (if field kvs ''depth'' = JUndefined then int_value 3 else field kvs ''depth'') \<and>
      (\<forall>t\<in>{''excludeTests'', ''excludeGenerated'', ''includeDirectDependents'',
            ''includeTransitiveDependents'', ''analyzeBreakingChanges''}.
         get out t = (if field kvs t = JUndefined then JBool True else field kvs t))"
    if p: "parse impactAnalysisParamsSchema (JObj kvs) = Inr out" for out
  proof
    show "get out ''depth'' =
        (if field kvs ''depth'' = JUndefined then int_value 3 else field kvs ''depth'')"
      using parse_default_number [OF parse_ZObject_get [OF p [unfolded S] dist mem]] .
  next
    show "\<forall>t\<in>{''excludeTests'', ''excludeGenerated'', ''includeDirectDependents'',
            ''includeTransitiveDependents'', ''analyzeBreakingChanges''}.
         get out t = (if field kvs t = JUndefined then JBool True else field kvs t)"
    proof
      fix t assume "t \<in> {''excludeTests'', ''excludeGenerated'', ''includeDirectDependents'',
            ''includeTransitiveDependents'', ''analyzeBreakingChanges''}"
      with tog have "(t, ZDefault ZBoolean (JBool True)) \<in> set shape" by (rule bspec)
      from parse_default_boolean [OF parse_ZObject_get [OF p [unfolded S] dist this]]
      show "get out t = (if field kvs t = JUndefined then JBool True else field kvs t)" .
    qed
  qed
  have empty: "parse impactAnalysisParamsSchema (JObj []) =
     Inr (JObj [(''includeDirectDependents'', JBool True),
                (''includeTransitiveDependents'', JBool True),
                (''depth'', int_value 3),
                (''excludeTests'', JBool True),
                (''excludeGenerated'', JBool True),
                (''analyzeBreakingChanges'', JBool True)])"
    by (simp add: impactAnalysisParamsSchema_def int_value_def has_key_def)
  from acc outp empty show ?thesis by blast
qed

theorem impact_analysis_depth_and_defaults_witness:
  "accepts impactAnalysisParamsSchema (JObj [(''depth'', int_value 5)]) \<and>
   \<not> accepts impactAnalysisParamsSchema (JObj [(''depth'', int_value 6)]) \<and>
   \<not> accepts impactAnalysisParamsSchema (JObj [(''depth'', int_value 0)]) \<and>
   get (JObj [(''includeDirectDependents'', JBool True),
                (''includeTransitiveDependents'', JBool True),
                (''depth'', int_value 3),
                (''excludeTests'', JBool True),
                (''excludeGenerated'', JBool True),
                (''analyzeBreakingChanges'', JBool True)]) ''excludeTests'' = JBool True"
proof -
  have eq: "omit ''depth'' [(''depth'', d)] = []" for d
    by (simp add: omit_def)
  have e: "accepts impactAnalysisParamsSchema (JObj [])"
    using impact_analysis_depth_and_defaults [of "[]"] by (simp add: accepts_iff)
  show ?thesis
    using impact_analysis_depth_and_defaults [of "[(''depth'', int_value 5)]"]
      impact_analysis_depth_and_defaults [of "[(''depth'', int_value 6)]"]
      impact_analysis_depth_and_defaults [of "[(''depth'', int_value 0)]"]
      impact_analysis_depth_and_defaults [of "[]"] e
    by (simp add: eq)
qed

section \<open>Symbol kinds\<close>

text \<open>
  Claim C5, as stated, fails: the symbol kind category schema accepts the string
  \<open>decorator\<close>, which is not one of the seventeen kinds the claim lists.
\<close>

theorem symbol_kind_decorator_counterexample:
  "accepts symbolKindCategorySchema (JStr ''decorator'') \<and>
   ''decorator'' \<notin> {''function'', ''class'', ''interface'', ''type'', ''variable'', ''constant'',
      ''enum'', ''module'', ''namespace'', ''method'', ''property'', ''parameter'',
      ''constructor'', ''trait'', ''struct'', ''macro'', ''unknown''}"
  by (simp add: symbolKindCategorySchema_def accepts_ZEnum)

text \<open>
  Claim C5, amended. For every string \<open>s\<close>, the symbol kind category schema accepts \<open>s\<close>
  if and only if \<open>s\<close> is one of eighteen kinds: the seventeen of the claim and \<open>decorator\<close>.
\<close>

theorem symbol_kind_eighteen:
  "accepts symbolKindCategorySchema (JStr s) \<longleftrightarrow>
   s \<in> {''function'', ''class'', ''interface'', ''type'', ''variable'', ''constant'',
      ''enum'', ''module'', ''namespace'', ''method'', ''property'', ''parameter'',
      ''constructor'', ''decorator'', ''trait'', ''struct'', ''macro'', ''unknown''}"
  by (simp add: symbolKindCategorySchema_def accepts_ZEnum)

theorem symbol_kind_eighteen_witness:
  "accepts symbolKindCategorySchema (JStr ''struct'') \<and>
   \<not> accepts symbolKindCategorySchema (JStr ''Struct'')"
  using symbol_kind_eighteen [of "''struct''"] symbol_kind_eighteen [of "''Struct''"]
  by simp

section \<open>Import resolution\<close>

text \<open>
  Claim C6. For every string \<open>s\<close>, the import type schema accepts \<open>s\<close> if and only if
  \<open>s\<close> is one of \<open>relative\<close>, \<open>workspace\<close>, \<open>alias\<close>, \<open>external\<close>, \<open>builtin\<close>. Every
  value the import resolution schema accepts is an object with a string \<open>source\<close>, a boolean
  \<open>isExternal\<close>, an \<open>importType\<close> that is one of these five strings, and a
  \<open>resolvedPath\<close> that is absent or a string; and every such object is accepted, unless
  Zod classifies it as a promise (its \<open>then\<close> and \<open>catch\<close> are both functions).
\<close>

theorem import_resolution_shape:
  "(accepts importTypeSchema (JStr s) \<longleftrightarrow>
      s \<in> {''relative'', ''workspace'', ''alias'', ''external'', ''builtin''}) \<and>
   (accepts importResolutionSchema j \<longleftrightarrow>
      (\<exists>kvs. j = JObj kvs \<and> \<not> isPromise kvs \<and>
         (\<exists>src. field kvs ''source'' = JStr src) \<and>
         (field kvs ''resolvedPath'' = JUndefined \<or>
            (\<exists>p. field kvs ''resolvedPath'' = JStr p)) \<and>
         (\<exists>b. field kvs ''isExternal'' = JBool b) \<and>
         (\<exists>t. field kvs ''importType'' = JStr t \<and>
            t \<in> {''relative'', ''workspace'', ''alias'', ''external'', ''builtin''})))"
  by (simp add: importResolutionSchema_def importTypeSchema_def accepts_ZObject
      accepts_ZOptional accepts_ZEnum accepts_ZString_plain accepts_ZBoolean)

theorem import_resolution_shape_witness:
  "accepts importTypeSchema (JStr ''alias'') \<and>
   \<not> accepts importTypeSchema (JStr ''absolute'') \<and>
   accepts importResolutionSchema
     (JObj [(''source'', JStr ''./a''), (''isExternal'', JBool False),
            (''importType'', JStr ''relative'')]) \<and>
   \<not> accepts importResolutionSchema
     (JObj [(''source'', JStr ''./a''), (''isExternal'', JBool False),
            (''importType'', JStr ''absolute'')])"
  using import_resolution_shape [of "''alias''" JNull]
    import_resolution_shape [of "''absolute''"
      "JObj [(''source'', JStr ''./a''), (''isExternal'', JBool False),
             (''importType'', JStr ''relative'')]"]
    import_resolution_shape [of "''absolute''"
      "JObj [(''source'', JStr ''./a''), (''isExternal'', JBool False),
             (''importType'', JStr ''absolute'')]"]
  by auto

section \<open>The indexing response\<close>

text \<open>
  Claim C7. Below, an object is one that Zod does not classify as a promise (its
  \<open>then\<close> and \<open>catch\<close> are not both functions); the schemas reject the others.
  The indexing response schema accepts exactly the objects whose \<open>processed\<close>
  and \<open>failed\<close> are nonnegative integers, whose \<open>projectId\<close> and \<open>branchName\<close> are
  strings, whose \<open>failedFiles\<close> is absent or an array of file failures, and whose
  \<open>relationships\<close> is accepted by the relationship summary schema. That schema accepts
  exactly the objects with nonnegative integers \<open>totalCreated\<close> and \<open>totalFailed\<close> and
  an array \<open>filesWithFailures\<close> of accepted relationship failures, so a response without
  the summary, or with a summary that lacks one of the three, is rejected. A relationship
  failure is accepted exactly when it is an object with a string \<open>file\<close>, nonnegative
  integers \<open>failedCount\<close> and \<open>createdCount\<close> and a boolean \<open>isTransient\<close>.
\<close>

theorem indexing_response_shape:
  "(accepts indexingResponseSchema j \<longleftrightarrow>
      (\<exists>kvs. j = JObj kvs \<and> \<not> isPromise kvs \<and>
         (\<exists>n. field kvs ''processed'' = int_value n \<and> 0 \<le> n) \<and>
         (\<exists>n. field kvs ''failed'' = int_value n \<and> 0 \<le> n) \<and>
         (\<exists>s. field kvs ''projectId'' = JStr s) \<and>
         (\<exists>s. field kvs ''branchName'' = JStr s) \<and>
         (field kvs ''failedFiles'' = JUndefined \<or>
            (\<exists>xs. field kvs ''failedFiles'' = JArr xs \<and>
               (\<forall>x\<in>set xs. accepts fileFailureSchema x))) \<and>
         accepts relationshipSummarySchema (field kvs ''relationships''))) \<and>
   (accepts relationshipSummarySchema r \<longleftrightarrow>
      (\<exists>kvs. r = JObj kvs \<and> \<not> isPromise kvs \<and>
         (\<exists>n. field kvs ''totalCreated'' = int_value n \<and> 0 \<le> n) \<and>
         (\<exists>n. field kvs ''totalFailed'' = int_value n \<and> 0 \<le> n) \<and>
         (\<exists>xs. field kvs ''filesWithFailures'' = JArr xs \<and>
            (\<forall>x\<in>set xs. accepts relationshipFailureSchema x)))) \<and>
   (accepts relationshipFailureSchema e \<longleftrightarrow>
      (\<exists>kvs. e = JObj kvs \<and> \<not> isPromise kvs \<and>
         (\<exists>s. field kvs ''file'' = JStr s) \<and>
         (\<exists>n. field kvs ''failedCount'' = int_value n \<and> 0 \<le> n) \<and>
         (\<exists>n. field kvs ''createdCount'' = int_value n \<and> 0 \<le> n) \<and>
         (\<exists>b. field kvs ''isTransient'' = JBool b)))"
proof -
  have 1: "accepts indexingResponseSchema j \<longleftrightarrow>
      (\<exists>kvs. j = JObj kvs \<and> \<not> isPromise kvs \<and>
         (\<exists>n. field kvs ''processed'' = int_value n \<and> 0 \<le> n) \<and>
         (\<exists>n. field kvs ''failed'' = int_value n \<and> 0 \<le> n) \<and>
         (\<exists>s. field kvs ''projectId'' = JStr s) \<and>
         (\<exists>s. field kvs ''branchName'' = JStr s) \<and>
         (field kvs ''failedFiles'' = JUndefined \<or>
            (\<exists>xs. field kvs ''failedFiles'' = JArr xs \<and>
               (\<forall>x\<in>set xs. accepts fileFailureSchema x))) \<and>
         accepts relationshipSummarySchema (field kvs ''relationships''))"
    by (simp add: indexingResponseSchema_def accepts_ZObject accepts_ZOptional
        accepts_ZArray accepts_ZString_plain accepts_nonneg_int)
  have 2: "accepts relationshipSummarySchema r \<longleftrightarrow>
      (\<exists>kvs. r = JObj kvs \<and> \<not> isPromise kvs \<and>
         (\<exists>n. field kvs ''totalCreated'' = int_value n \<and> 0 \<le> n) \<and>
         (\<exists>n. field kvs ''totalFailed'' = int_value n \<and> 0 \<le> n) \<and>
         (\<exists>xs. field kvs ''filesWithFailures'' = JArr xs \<and>
            (\<forall>x\<in>set xs. accepts relationshipFailureSchema x)))"
    by (simp add: relationshipSummarySchema_def accepts_ZObject accepts_ZArray
        accepts_nonneg_int)
  have 3: "accepts relationshipFailureSchema e \<longleftrightarrow>
      (\<exists>kvs. e = JObj kvs \<and> \<not> isPromise kvs \<and>
         (\<exists>s. field kvs ''file'' = JStr s) \<and>
         (\<exists>n. field kvs ''failedCount'' = int_value n \<and> 0 \<le> n) \<and>
         (\<exists>n. field kvs ''createdCount'' = int_value n \<and> 0 \<le> n) \<and>
         (\<exists>b. field kvs ''isTransient'' = JBool b))"
    by (simp add: relationshipFailureSchema_def accepts_ZObject accepts_ZString_plain
        accepts_ZBoolean accepts_nonneg_int)
  from 1 2 3 show ?thesis by (rule conjI [OF _ conjI])
qed

theorem indexing_response_shape_witness:
  "accepts indexingResponseSchema
     (JObj [(''processed'', int_value 2), (''failed'', int_value 0),
            (''projectId'', JStr ''p''), (''branchName'', JStr ''main''),
            (''relationships'',
               JObj [(''totalCreated'', int_value 3), (''totalFailed'', int_value 1),
                     (''filesWithFailures'',
                        JArr [JObj [(''file'', JStr ''a.ts''), (''failedCount'', int_value 1),
                                    (''createdCount'', int_value 3),
                                    (''isTransient'', JBool True)]])])]) \<and>
   \<not> accepts indexingResponseSchema
     (JObj [(''processed'', int_value 2), (''failed'', int_value 0),
            (''projectId'', JStr ''p''), (''branchName'', JStr ''main'')]) \<and>
   \<not> accepts indexingResponseSchema
     (JObj [(''processed'', int_value (- 2)), (''failed'', int_value 0),
            (''projectId'', JStr ''p''), (''branchName'', JStr ''main''),
            (''relationships'',
               JObj [(''totalCreated'', int_value 3), (''totalFailed'', int_value 1),
                     (''filesWithFailures'', JArr [])])])"
proof -
  let ?e = "JObj [(''file'', JStr ''a.ts''), (''failedCount'', int_value 1),
                  (''createdCount'', int_value 3), (''isTransient'', JBool True)]"
  let ?r = "JObj [(''totalCreated'', int_value 3), (''totalFailed'', int_value 1),
                  (''filesWithFailures'', JArr [?e])]"
  let ?rz = "JObj [(''totalCreated'', int_value 3), (''totalFailed'', int_value 1),
                  (''filesWithFailures'', JArr [])]"
  let ?j1 = "JObj [(''processed'', int_value 2), (''failed'', int_value 0),
            (''projectId'', JStr ''p''), (''branchName'', JStr ''main''),
            (''relationships'', ?r)]"
  let ?j2 = "JObj [(''processed'', int_value 2), (''failed'', int_value 0),
            (''projectId'', JStr ''p''), (''branchName'', JStr ''main'')]"
  let ?j3 = "JObj [(''processed'', int_value (- 2)), (''failed'', int_value 0),
            (''projectId'', JStr ''p''), (''branchName'', JStr ''main''),
            (''relationships'', ?rz)]"
  have e: "accepts relationshipFailureSchema ?e"
    using indexing_response_shape [of JNull JNull ?e] by auto
  have r: "accepts relationshipSummarySchema ?r"
    using indexing_response_shape [of JNull ?r JNull] e by auto
  have u: "\<not> accepts relationshipSummarySchema JUndefined"
    using indexing_response_shape [of JNull JUndefined JNull] by auto
  have 1: "accepts indexingResponseSchema ?j1"
    using indexing_response_shape [of ?j1 JNull JNull] r by auto
  have 2: "\<not> accepts indexingResponseSchema ?j2"
    using indexing_response_shape [of ?j2 JNull JNull] u by auto
  have 3: "\<not> accepts indexingResponseSchema ?j3"
    using indexing_response_shape [of ?j3 JNull JNull] by auto
  from 1 2 3 show ?thesis by auto
qed

section \<open>Ping\<close>






section \<open>Cycle length bounds\<close>

lemma findCircularDependencies_shape:
  obtains shape where "findCircularDependenciesParamsSchema = ZObject shape Strip"
    and "distinct (map fst shape)"
    and "(''minCycleLength'', ZOptional (ZNumber [CInt, CMin 2, CMax 10])) \<in> set shape"
    and "(''maxCycleLength'', ZOptional (ZNumber [CInt, CMin 2, CMax 10])) \<in> set shape"
  by (rule that [of "case findCircularDependenciesParamsSchema of ZObject shape uk \<Rightarrow> shape"])
    (simp_all add: findCircularDependenciesParamsSchema_def)

text \<open>
  Claim C9. The findCircularDependencies parameter schema accepts an object exactly when
  its \<open>minCycleLength\<close> is absent or an integer from 2 to 10, its \<open>maxCycleLength\<close> is
  absent or an integer from 2 to 10, and the object without these two keys is accepted:
  each bound is checked on its own and nothing relates them. The input with
  \<open>minCycleLength\<close> 10 and \<open>maxCycleLength\<close> 2 is accepted, and the parsed output
  carries both values unchanged.
\<close>

theorem cycle_length_bounds_independent:
  "(accepts findCircularDependenciesParamsSchema (JObj kvs) \<longleftrightarrow>
      (field kvs ''minCycleLength'' = JUndefined \<or>
         (\<exists>n. field kvs ''minCycleLength'' = int_value n \<and> 2 \<le> n \<and> n \<le> 10)) \<and>
      (field kvs ''maxCycleLength'' = JUndefined \<or>
         (\<exists>n. field kvs ''maxCycleLength'' = int_value n \<and> 2 \<le> n \<and> n \<le> 10)) \<and>
      accepts findCircularDependenciesParamsSchema
        (JObj (omit ''maxCycleLength'' (omit ''minCycleLength'' kvs)))) \<and>
   (\<exists>out. parse findCircularDependenciesParamsSchema
        (JObj [(''minCycleLength'', int_value 10), (''maxCycleLength'', int_value 2)]) = Inr out \<and>
      get out ''minCycleLength'' = int_value 10 \<and> get out ''maxCycleLength'' = int_value 2)"
proof -
  let ?cs = "ZOptional (ZNumber [CInt, CMin 2, CMax 10])"
  let ?S = findCircularDependenciesParamsSchema
  obtain shape where S: "?S = ZObject shape Strip"
    and dist: "distinct (map fst shape)"
    and mn: "(''minCycleLength'', ?cs) \<in> set shape"
    and mx: "(''maxCycleLength'', ?cs) \<in> set shape"
    by (rule findCircularDependencies_shape)
  have aC: "accepts ?cs v \<longleftrightarrow>
      v = JUndefined \<or> (\<exists>n. v = int_value n \<and> 2 \<le> n \<and> n \<le> 10)" for v
    using accepts_int_range [of 2 10 v] by (simp add: accepts_ZOptional)
  then have u: "accepts ?cs JUndefined" by simp
  have nmn: "''minCycleLength'' \<notin> {''then'', ''catch''}"
    and nmx: "''maxCycleLength'' \<notin> {''then'', ''catch''}" by simp_all
  have 1: "accepts ?S (JObj kvs) \<longleftrightarrow>
      accepts ?cs (field kvs ''minCycleLength'') \<and> accepts ?S (JObj (omit ''minCycleLength'' kvs))"
    for kvs
    using accepts_ZObject_split [OF dist mn u nmn, of kvs] by (simp only: S)
  have 2: "accepts ?S (JObj kvs) \<longleftrightarrow>
      accepts ?cs (field kvs ''maxCycleLength'') \<and> accepts ?S (JObj (omit ''maxCycleLength'' kvs))"
    for kvs
    using accepts_ZObject_split [OF dist mx u nmx, of kvs] by (simp only: S)
  have f: "field (omit ''minCycleLength'' kvs) ''maxCycleLength'' = field kvs ''maxCycleLength''"
    by simp
  have acc: "accepts ?S (JObj kvs) \<longleftrightarrow>
      (field kvs ''minCycleLength'' = JUndefined \<or>
         (\<exists>n. field kvs ''minCycleLength'' = int_value n \<and> 2 \<le> n \<and> n \<le> 10)) \<and>
      (field kvs ''maxCycleLength'' = JUndefined \<or>
         (\<exists>n. field kvs ''maxCycleLength'' = int_value n \<and> 2 \<le> n \<and> n \<le> 10)) \<and>
      accepts ?S (JObj (omit ''maxCycleLength'' (omit ''minCycleLength'' kvs)))"
    using 1 [of kvs] 2 [of "omit ''minCycleLength'' kvs"] unfolding f aC by blast
  let ?in = "[(''minCycleLength'', int_value 10), (''maxCycleLength'', int_value 2)]"
  have "accepts ?S (JObj ?in)"
    by (simp add: findCircularDependenciesParamsSchema_def accepts_ZObject accepts_ZOptional
        accepts_ZDefault accepts_nonneg_int accepts_int_range [of 2 10, simplified]
        accepts_limit_checks [of 100, simplified])
  then obtain out where out: "parse ?S (JObj ?in) = Inr out"
    by (auto simp: accepts_iff)
  from parse_ZOptional_number [OF parse_ZObject_get [OF out [unfolded S] dist mn]]
    parse_ZOptional_number [OF parse_ZObject_get [OF out [unfolded S] dist mx]]
  have "get out ''minCycleLength'' = int_value 10 \<and> get out ''maxCycleLength'' = int_value 2"
    by simp
  with out acc show ?thesis by blast
qed

theorem cycle_length_bounds_independent_witness:
  "accepts findCircularDependenciesParamsSchema
     (JObj [(''minCycleLength'', int_value 10), (''maxCycleLength'', int_value 2)]) \<and>
   \<not> accepts findCircularDependenciesParamsSchema
     (JObj [(''minCycleLength'', int_value 1), (''maxCycleLength'', int_value 2)]) \<and>
   \<not> accepts findCircularDependenciesParamsSchema
     (JObj [(''minCycleLength'', int_value 2), (''maxCycleLength'', int_value 11)])"
  using cycle_length_bounds_independent
      [of "[(''minCycleLength'', int_value 1), (''maxCycleLength'', int_value 2)]"]
    cycle_length_bounds_independent
      [of "[(''minCycleLength'', int_value 2), (''maxCycleLength'', int_value 11)]"]
  by (auto simp: accepts_iff)

section \<open>The response envelope\<close>

text \<open>
  Claim C10. A value \<open>r\<close> of type \<open>ApiResponse<T>\<close> is one that the success schema (for
  the schema \<open>D\<close> of \<open>T\<close>) or the error schema accepts. For every such \<open>r\<close>,
  \<open>isSuccessResponse(r)\<close> is true if and only if \<open>r.success\<close> is \<open>true\<close>, and
  \<open>isErrorResponse(r)\<close> is the negation of \<open>isSuccessResponse(r)\<close>, so exactly one guard
  holds; the guards also narrow correctly: the first holds exactly for the success
  variant and the second exactly for the error variant.
\<close>

theorem response_guards_complementary:
  assumes "accepts (apiResponseSchema D) r \<or> accepts apiErrorResponseSchema r"
  shows "(isSuccessResponse r \<longleftrightarrow> get r ''success'' = JBool True) \<and>
         (isErrorResponse r \<longleftrightarrow> \<not> isSuccessResponse r) \<and>
         (isSuccessResponse r \<longleftrightarrow> accepts (apiResponseSchema D) r) \<and>
         (isErrorResponse r \<longleftrightarrow> accepts apiErrorResponseSchema r)"
proof -
  have s: "get r ''success'' = JBool True" if "accepts (apiResponseSchema D) r"
    using that by (auto simp: apiResponseSchema_def accepts_ZObject accepts_ZLiteral)
  have e: "get r ''success'' = JBool False" if "accepts apiErrorResponseSchema r"
    using that by (auto simp: apiErrorResponseSchema_def accepts_ZObject accepts_ZLiteral)
  from assms show ?thesis
  proof
    assume a: "accepts (apiResponseSchema D) r"
    with e have "\<not> accepts apiErrorResponseSchema r" using s by fastforce
    with a s show ?thesis by (simp add: isSuccessResponse_def isErrorResponse_def)
  next
    assume a: "accepts apiErrorResponseSchema r"
    with s have "\<not> accepts (apiResponseSchema D) r" using e by fastforce
    with a e show ?thesis by (simp add: isSuccessResponse_def isErrorResponse_def)
  qed
qed

theorem response_guards_complementary_witness:
  "isSuccessResponse (JObj [(''success'', JBool True), (''data'', JStr ''x'')]) \<and>
   \<not> isErrorResponse (JObj [(''success'', JBool True), (''data'', JStr ''x'')]) \<and>
   isErrorResponse (JObj [(''success'', JBool False),
      (''error'', JObj [(''code'', JStr ''NOT_FOUND''), (''message'', JStr ''m'')])]) \<and>
   \<not> isSuccessResponse (JObj [(''success'', JBool False),
      (''error'', JObj [(''code'', JStr ''NOT_FOUND''), (''message'', JStr ''m'')])])"
proof -
  let ?ok = "JObj [(''success'', JBool True), (''data'', JStr ''x'')]"
  let ?err = "JObj [(''success'', JBool False),
      (''error'', JObj [(''code'', JStr ''NOT_FOUND''), (''message'', JStr ''m'')])]"
  have 1: "accepts (apiResponseSchema (ZString [])) ?ok"
    by (simp add: apiResponseSchema_def accepts_ZObject accepts_ZLiteral accepts_ZString_plain)
  have 2: "accepts apiErrorResponseSchema ?err"
    by (simp add: apiErrorResponseSchema_def accepts_ZObject accepts_ZLiteral
        accepts_ZString_plain accepts_ZOptional)
  from 1 have "accepts (apiResponseSchema (ZString [])) ?ok \<or> accepts apiErrorResponseSchema ?ok" ..
  note a = response_guards_complementary [OF this]
  from 2 have "accepts (apiResponseSchema ZAny) ?err \<or> accepts apiErrorResponseSchema ?err" ..
  note b = response_guards_complementary [OF this]
  from a b 1 2 show ?thesis by simp
qed

end
